theory Spec2Isabelle
  imports Main
begin

section \<open>Values, exceptions and the request\<close>

text \<open>
  Instants are counted in microseconds since the epoch, the resolution of
  \<^verbatim>\<open>datetime.utcnow()\<close>. The clock is an input of every function that reads it.
\<close>

type_synonym datetime = int

definition timedelta :: "int \<Rightarrow> int \<Rightarrow> int" where
  "timedelta days minutes = days * 86400000000 + minutes * 60000000"

text \<open>
  The values that occur in a token payload: strings, integers and, before the
  token library has converted them, datetimes. A payload is a Python dict, kept
  in insertion order.
\<close>

datatype py_value = Str string | Integer int | Datetime datetime

type_synonym payload = "(string \<times> py_value) list"

text \<open>
  The exceptions of \<^verbatim>\<open>jwt.decode\<close>. Every one of them is a subclass of
  \<^verbatim>\<open>jwt.InvalidTokenError\<close>; \<open>ExpiredSignatureError\<close> is the one that
  \<^verbatim>\<open>decode_jwt\<close> catches first.
\<close>

datatype jwt_error =
    ExpiredSignatureError
  | InvalidSignatureError
  | DecodeError
  | ImmatureSignatureError
  | InvalidAlgorithmError

text \<open>The exceptions \<^verbatim>\<open>fastapi_csrf_protect\<close> raises.\<close>

datatype csrf_error = InvalidHeaderError | MissingTokenError | TokenValidationError

text \<open>Everything a function of the repository can raise.\<close>

datatype exn =
    HTTPException nat string
  | KeyError string
  | CsrfProtectError csrf_error
  | UnknownHashError
  | ValueError
  | InvalidId
  | DuplicateKeyError
  | TypeError

record Request =
  cookies :: "string \<rightharpoonup> string"
  headers :: "string \<rightharpoonup> string"

section \<open>auth\_utils.py\<close>

text \<open>
  An \<^verbatim>\<open>AuthJwtCsrf\<close> object holds the secret key and the password context.
  The module \<^verbatim>\<open>jwt\<close> it calls is not part of the repository: its two
  functions are fields of the record, so that every theorem below holds for
  whatever library is put there, and says which behaviour of the library it
  relies on.
  \<^item> \<open>pwd_ctx_verify secret hash\<close> is \<^verbatim>\<open>self.pwd_ctx.verify(secret, hash)\<close>;
  \<^item> \<open>jwt_encode payload key algorithm\<close> is \<^verbatim>\<open>jwt.encode(payload, key, algorithm=...)\<close>;
  \<^item> \<open>jwt_decode token key algorithms clock\<close> is
    \<^verbatim>\<open>jwt.decode(token, key, algorithms=...)\<close>, called when the clock shows \<open>clock\<close>.
\<close>

record AuthJwtCsrf =
  secret_key :: string
  pwd_ctx_verify :: "string \<Rightarrow> string \<Rightarrow> exn + bool"
  jwt_encode :: "payload \<Rightarrow> string \<Rightarrow> string \<Rightarrow> string"
  jwt_decode :: "string \<Rightarrow> string \<Rightarrow> string list \<Rightarrow> datetime \<Rightarrow> jwt_error + payload"

definition httponly :: bool where
  "httponly = True"

definition jwt_token_cookie_key :: string where
  "jwt_token_cookie_key = ''access_token''"

definition secure :: bool where
  "secure = True"

definition samesite :: string where
  "samesite = ''none''"

definition verify_password :: "AuthJwtCsrf \<Rightarrow> string \<Rightarrow> string \<Rightarrow> exn + bool" where
  "verify_password self plain_pw hashed_pw = pwd_ctx_verify self plain_pw hashed_pw"

text \<open>\<open>now\<close> is what \<^verbatim>\<open>datetime.utcnow()\<close> returns inside \<^verbatim>\<open>encode_jwt\<close>.\<close>

definition encode_jwt :: "AuthJwtCsrf \<Rightarrow> datetime \<Rightarrow> py_value \<Rightarrow> string" where
  "encode_jwt self now email =
     (let payload = [(''sub'', email),
                     (''iat'', Datetime now),
                     (''exp'', Datetime (now + timedelta 0 5))]
      in jwt_encode self payload (secret_key self) ''HS256'')"

text \<open>
  \<^verbatim>\<open>payload["sub"]\<close> stands inside the \<^verbatim>\<open>try\<close>, and neither \<^verbatim>\<open>except\<close>
  clause catches the \<^verbatim>\<open>KeyError\<close> of a payload without that key.
\<close>

definition decode_jwt :: "AuthJwtCsrf \<Rightarrow> datetime \<Rightarrow> string \<Rightarrow> exn + py_value" where
  "decode_jwt self clock token =
     (case jwt_decode self token (secret_key self) [''HS256''] clock of
        Inr payload \<Rightarrow>
          (case map_of payload ''sub'' of
             None \<Rightarrow> Inl (KeyError ''sub'')
           | Some subject \<Rightarrow> Inr subject)
      | Inl ExpiredSignatureError \<Rightarrow> Inl (HTTPException 401 ''JWT token has expired'')
      | Inl _ \<Rightarrow> Inl (HTTPException 401 ''Invalid JWT token''))"

text \<open>
  \<^verbatim>\<open>str.partition(sep)\<close> for a separator of one character: the part before the
  first separator, the separator, the part after it; the whole string and two
  empty strings when there is no separator.
\<close>

definition str_partition :: "string \<Rightarrow> char \<Rightarrow> string \<times> string \<times> string" where
  "str_partition s sep =
     (if sep \<in> set s
      then (takeWhile (\<lambda>c. c \<noteq> sep) s, [sep], tl (dropWhile (\<lambda>c. c \<noteq> sep) s))
      else (s, [], []))"

definition verify_jwt :: "AuthJwtCsrf \<Rightarrow> datetime \<Rightarrow> Request \<Rightarrow> exn + py_value" where
  "verify_jwt self clock request =
     (case cookies request jwt_token_cookie_key of
        None \<Rightarrow> Inl (HTTPException 404 ''No JWT exist: may not set yet or deleted.'')
      | Some token \<Rightarrow>
          (case str_partition token (CHR '' '') of
             (_, _, v) \<Rightarrow> decode_jwt self clock v))"

text \<open>
  The clock is read twice: by \<^verbatim>\<open>jwt.decode\<close> (\<open>clock\<close>) and then by
  \<^verbatim>\<open>encode_jwt\<close> (\<open>now\<close>).
\<close>

definition verify_update_jwt ::
  "AuthJwtCsrf \<Rightarrow> datetime \<Rightarrow> datetime \<Rightarrow> Request \<Rightarrow> exn + (string \<times> py_value)" where
  "verify_update_jwt self clock now request =
     (case verify_jwt self clock request of
        Inl e \<Rightarrow> Inl e
      | Inr subject \<Rightarrow> Inr (encode_jwt self now subject, subject))"

text \<open>The \<^verbatim>\<open>CsrfProtect\<close> object a handler receives, by its two methods.\<close>

record CsrfProtect =
  get_csrf_from_headers :: "(string \<rightharpoonup> string) \<Rightarrow> csrf_error + string"
  validate_csrf :: "string \<Rightarrow> csrf_error + unit"

definition verify_csrf_update_jwt ::
  "AuthJwtCsrf \<Rightarrow> datetime \<Rightarrow> datetime \<Rightarrow> Request \<Rightarrow> CsrfProtect \<Rightarrow> (string \<rightharpoonup> string)
     \<Rightarrow> exn + string" where
  "verify_csrf_update_jwt self clock now request csrf_protect hdrs =
     (case get_csrf_from_headers csrf_protect hdrs of
        Inl e \<Rightarrow> Inl (CsrfProtectError e)
      | Inr csrf_token \<Rightarrow>
          (case validate_csrf csrf_protect csrf_token of
             Inl e \<Rightarrow> Inl (CsrfProtectError e)
           | Inr _ \<Rightarrow>
               (case verify_update_jwt self clock now request of
                  Inl e \<Rightarrow> Inl e
                | Inr (new_token, _) \<Rightarrow> Inr new_token)))"

section \<open>What the theorems ask of the token library\<close>

text \<open>
  \<^verbatim>\<open>jwt.encode\<close> replaces a datetime under \<^verbatim>\<open>exp\<close>, \<^verbatim>\<open>iat\<close> or \<^verbatim>\<open>nbf\<close>
  by its whole seconds since the epoch before it serialises the payload;
  \<open>to_claims\<close> is the payload as the token carries it.
\<close>

definition to_claims :: "payload \<Rightarrow> payload" where
  "to_claims p =
     map (\<lambda>(k, v). (k, case v of
                          Datetime d \<Rightarrow>
                            if k = ''exp'' \<or> k = ''iat'' \<or> k = ''nbf''
                            then Integer (d div 1000000) else v
                        | _ \<Rightarrow> v)) p"

text \<open>The payload \<^verbatim>\<open>encode_jwt\<close> builds at \<open>now\<close> for a subject that is a string.\<close>

definition session_payload :: "string \<Rightarrow> datetime \<Rightarrow> payload" where
  "session_payload s now =
     [(''sub'', Str s), (''iat'', Datetime now), (''exp'', Datetime (now + timedelta 0 5))]"

text \<open>
  The registered time claims at the instant \<open>clock\<close>: issued and valid by
  then, not yet expired.
\<close>

definition not_after :: "payload \<Rightarrow> string \<Rightarrow> datetime \<Rightarrow> bool" where
  "not_after claims k clock =
     (case map_of claims k of
        None \<Rightarrow> True
      | Some (Integer i) \<Rightarrow> i * 1000000 \<le> clock
      | Some _ \<Rightarrow> False)"

definition unexpired :: "payload \<Rightarrow> datetime \<Rightarrow> bool" where
  "unexpired claims clock =
     (case map_of claims ''exp'' of
        None \<Rightarrow> True
      | Some (Integer e) \<Rightarrow> clock < e * 1000000
      | Some _ \<Rightarrow> False)"

definition time_valid :: "payload \<Rightarrow> datetime \<Rightarrow> bool" where
  "time_valid claims clock =
     (not_after claims ''iat'' clock \<and> not_after claims ''nbf'' clock \<and> unexpired claims clock)"

text \<open>
  The three facts about the library that theorems below assume, each only for
  the payloads \<^verbatim>\<open>encode_jwt\<close> builds (a string under \<^verbatim>\<open>sub\<close>, then \<^verbatim>\<open>iat\<close>
  and \<^verbatim>\<open>exp\<close>) and under the key and the algorithm \<^verbatim>\<open>auth_utils.py\<close> uses:
  \<^item> such a token decodes to the payload it carries while its time claims hold;
  \<^item> signing the payload with its datetimes gives the same token as signing it
    with their whole seconds, so nothing below the second enters a token;
  \<^item> the empty string is rejected with an error other than
    \<open>ExpiredSignatureError\<close>.
\<close>

definition jwt_round_trips :: "AuthJwtCsrf \<Rightarrow> bool" where
  "jwt_round_trips self =
     (\<forall>s now clock.
        time_valid (to_claims (session_payload s now)) clock \<longrightarrow>
        jwt_decode self (jwt_encode self (session_payload s now) (secret_key self) ''HS256'')
          (secret_key self) [''HS256''] clock = Inr (to_claims (session_payload s now)))"

definition jwt_whole_seconds :: "AuthJwtCsrf \<Rightarrow> bool" where
  "jwt_whole_seconds self =
     (\<forall>s now.
        jwt_encode self (session_payload s now) (secret_key self) ''HS256''
          = jwt_encode self (to_claims (session_payload s now)) (secret_key self) ''HS256'')"

definition jwt_rejects_empty :: "AuthJwtCsrf \<Rightarrow> bool" where
  "jwt_rejects_empty self =
     (\<forall>clock. \<exists>e. jwt_decode self [] (secret_key self) [''HS256''] clock = Inl e
                  \<and> e \<noteq> ExpiredSignatureError)"

section \<open>A reference token library\<close>

text \<open>
  A small signed-token codec with the interface of \<^verbatim>\<open>jwt.encode\<close> and
  \<^verbatim>\<open>jwt.decode\<close>, for the closed examples: it shows that the two assumptions
  above can be met, and gives the examples a token to run on. The message
  authentication code is a parameter. A token is the length-prefixed body
  (algorithm, then the claims) followed by the tag over the body.
\<close>

definition ser_nat :: "nat \<Rightarrow> string" where
  "ser_nat n = replicate n (CHR ''1'') @ ''0''"

definition parse_nat :: "string \<Rightarrow> (nat \<times> string) option" where
  "parse_nat s =
     (case dropWhile (\<lambda>c. c = CHR ''1'') s of
        [] \<Rightarrow> None
      | c # r \<Rightarrow>
          if c = CHR ''0'' then Some (length (takeWhile (\<lambda>c. c = CHR ''1'') s), r)
          else None)"

definition ser_str :: "string \<Rightarrow> string" where
  "ser_str s = ser_nat (length s) @ s"

definition parse_str :: "string \<Rightarrow> (string \<times> string) option" where
  "parse_str s =
     (case parse_nat s of
        None \<Rightarrow> None
      | Some (n, r) \<Rightarrow> if n \<le> length r then Some (take n r, drop n r) else None)"

definition ser_int :: "int \<Rightarrow> string" where
  "ser_int i = (if i < 0 then CHR ''-'' else CHR ''+'') # ser_nat (nat \<bar>i\<bar>)"

definition parse_int :: "string \<Rightarrow> (int \<times> string) option" where
  "parse_int s =
     (case s of
        [] \<Rightarrow> None
      | c # r \<Rightarrow>
          if c = CHR ''-'' then map_option (\<lambda>(n, r'). (- int n, r')) (parse_nat r)
          else if c = CHR ''+'' then map_option (\<lambda>(n, r'). (int n, r')) (parse_nat r)
          else None)"

fun ser_value :: "py_value \<Rightarrow> string" where
  "ser_value (Str s) = CHR ''s'' # ser_str s"
| "ser_value (Integer i) = CHR ''i'' # ser_int i"
| "ser_value (Datetime d) = CHR ''d'' # ser_int d"

definition parse_value :: "string \<Rightarrow> (py_value \<times> string) option" where
  "parse_value s =
     (case s of
        [] \<Rightarrow> None
      | c # r \<Rightarrow>
          if c = CHR ''s'' then map_option (\<lambda>(x, r'). (Str x, r')) (parse_str r)
          else if c = CHR ''i'' then map_option (\<lambda>(x, r'). (Integer x, r')) (parse_int r)
          else if c = CHR ''d'' then map_option (\<lambda>(x, r'). (Datetime x, r')) (parse_int r)
          else None)"

fun ser_items :: "payload \<Rightarrow> string" where
  "ser_items [] = []"
| "ser_items ((k, v) # xs) = ser_str k @ ser_value v @ ser_items xs"

fun parse_items :: "nat \<Rightarrow> string \<Rightarrow> (payload \<times> string) option" where
  "parse_items 0 s = Some ([], s)"
| "parse_items (Suc n) s =
     (case parse_str s of
        None \<Rightarrow> None
      | Some (k, r) \<Rightarrow>
          (case parse_value r of
             None \<Rightarrow> None
           | Some (v, r') \<Rightarrow>
               (case parse_items n r' of
                  None \<Rightarrow> None
                | Some (xs, r'') \<Rightarrow> Some ((k, v) # xs, r''))))"

definition ser_payload :: "payload \<Rightarrow> string" where
  "ser_payload p = ser_nat (length p) @ ser_items p"

definition parse_payload :: "string \<Rightarrow> (payload \<times> string) option" where
  "parse_payload s =
     (case parse_nat s of
        None \<Rightarrow> None
      | Some (n, r) \<Rightarrow> parse_items n r)"

definition ref_jwt_encode ::
  "(string \<Rightarrow> string \<Rightarrow> string) \<Rightarrow> payload \<Rightarrow> string \<Rightarrow> string \<Rightarrow> string" where
  "ref_jwt_encode mac p key alg =
     (let body = ser_str alg @ ser_payload (to_claims p)
      in ser_str body @ mac key body)"

text \<open>
  The checks in the order of the library: the algorithm, the signature, the
  payload, then the time claims (\<^verbatim>\<open>iat\<close>, \<^verbatim>\<open>nbf\<close>, \<^verbatim>\<open>exp\<close>).
\<close>

definition check_not_before :: "payload \<Rightarrow> string \<Rightarrow> datetime \<Rightarrow> jwt_error option" where
  "check_not_before claims k clock =
     (case map_of claims k of
        None \<Rightarrow> None
      | Some (Integer i) \<Rightarrow> if clock < i * 1000000 then Some ImmatureSignatureError else None
      | Some _ \<Rightarrow> Some DecodeError)"

definition check_exp :: "payload \<Rightarrow> datetime \<Rightarrow> jwt_error option" where
  "check_exp claims clock =
     (case map_of claims ''exp'' of
        None \<Rightarrow> None
      | Some (Integer e) \<Rightarrow> if e * 1000000 \<le> clock then Some ExpiredSignatureError else None
      | Some _ \<Rightarrow> Some DecodeError)"

definition validate_claims :: "payload \<Rightarrow> datetime \<Rightarrow> jwt_error + payload" where
  "validate_claims claims clock =
     (case check_not_before claims ''iat'' clock of
        Some e \<Rightarrow> Inl e
      | None \<Rightarrow>
          (case check_not_before claims ''nbf'' clock of
             Some e \<Rightarrow> Inl e
           | None \<Rightarrow>
               (case check_exp claims clock of
                  Some e \<Rightarrow> Inl e
                | None \<Rightarrow> Inr claims)))"

definition ref_jwt_decode ::
  "(string \<Rightarrow> string \<Rightarrow> string) \<Rightarrow> string \<Rightarrow> string \<Rightarrow> string list \<Rightarrow> datetime
     \<Rightarrow> jwt_error + payload" where
  "ref_jwt_decode mac token key algs clock =
     (case parse_str token of
        None \<Rightarrow> Inl DecodeError
      | Some (body, tag) \<Rightarrow>
          (case parse_str body of
             None \<Rightarrow> Inl DecodeError
           | Some (alg, r) \<Rightarrow>
               if alg \<notin> set algs then Inl InvalidAlgorithmError
               else if tag \<noteq> mac key body then Inl InvalidSignatureError
               else (case parse_payload r of
                       None \<Rightarrow> Inl DecodeError
                     | Some (claims, rest) \<Rightarrow>
                         if rest \<noteq> [] then Inl DecodeError
                         else validate_claims claims clock)))"

section \<open>A reference password context\<close>

text \<open>
  \<^verbatim>\<open>CryptContext(schemes=["bcrypt"]).verify\<close> first identifies the scheme of the
  hash by its prefix and raises \<^verbatim>\<open>UnknownHashError\<close> when no scheme of the
  context claims it; only then does the scheme's own check run (the parameter
  \<open>bcrypt\<close>, which may itself raise on a malformed hash).
\<close>

definition bcrypt_idents :: "string list" where
  "bcrypt_idents = [''$2$'', ''$2a$'', ''$2x$'', ''$2y$'', ''$2b$'']"

definition ref_pwd_ctx_verify ::
  "(string \<Rightarrow> string \<Rightarrow> exn + bool) \<Rightarrow> string \<Rightarrow> string \<Rightarrow> exn + bool" where
  "ref_pwd_ctx_verify bcrypt secret hash =
     (if list_ex (\<lambda>ident. take (length ident) hash = ident) bcrypt_idents
      then bcrypt secret hash
      else Inl UnknownHashError)"

definition ref_auth ::
  "(string \<Rightarrow> string \<Rightarrow> string) \<Rightarrow> (string \<Rightarrow> string \<Rightarrow> exn + bool) \<Rightarrow> string \<Rightarrow> AuthJwtCsrf" where
  "ref_auth mac bcrypt key =
     \<lparr>secret_key = key,
      pwd_ctx_verify = ref_pwd_ctx_verify bcrypt,
      jwt_encode = ref_jwt_encode mac,
      jwt_decode = ref_jwt_decode mac\<rparr>"

text \<open>Stand-ins for the keyed hash and for bcrypt, used by the closed examples only.\<close>

definition toy_mac :: "string \<Rightarrow> string \<Rightarrow> string" where
  "toy_mac key msg = ser_nat ((length key + sum_list (map of_char (key @ msg))) mod 97)"

definition toy_bcrypt :: "string \<Rightarrow> string \<Rightarrow> exn + bool" where
  "toy_bcrypt secret hash =
     (if length hash < 60 then Inl ValueError else Inr (drop 29 hash = take 31 (rev secret @ hash)))"

definition example_auth :: AuthJwtCsrf where
  "example_auth = ref_auth toy_mac toy_bcrypt ''k3y''"

section \<open>database.py\<close>

text \<open>
  The todo collection maps the \<^verbatim>\<open>_id\<close> of a document (an \<^verbatim>\<open>ObjectId\<close>, by
  the lower-case hexadecimal digits of its bytes) to its two fields. The
  driver's calls are the map operations, one request at a time.

  \<^verbatim>\<open>ObjectId(id)\<close> takes a string of length 24 and reads it with
  \<^verbatim>\<open>bytes.fromhex\<close>, raising \<^verbatim>\<open>InvalidId\<close> when the length is another or the
  reading fails. \<^verbatim>\<open>bytes.fromhex\<close> skips ASCII whitespace before a byte and then
  wants two hexadecimal digits next to each other, so a string of length 24
  with whitespace between its bytes is accepted and gives fewer than twelve
  bytes.
\<close>

record TodoBody =
  title :: string
  description :: string

record Todo =
  todo_id :: string
  todo_title :: string
  todo_description :: string

type_synonym collection = "string \<rightharpoonup> TodoBody"

definition hex_lower :: "char \<Rightarrow> char" where
  "hex_lower c = (case map_of (zip ''ABCDEF'' ''abcdef'') c of None \<Rightarrow> c | Some l \<Rightarrow> l)"

definition is_hex :: "char \<Rightarrow> bool" where
  "is_hex c = (c \<in> set ''0123456789abcdefABCDEF'')"

definition is_space :: "char \<Rightarrow> bool" where
  "is_space c = (c \<in> set [CHR '' '', CHR 0x09, CHR 0x0A, CHR 0x0B, CHR 0x0C, CHR 0x0D])"

fun fromhex :: "string \<Rightarrow> string option" where
  "fromhex [] = Some []"
| "fromhex [c] = (if is_space c then Some [] else None)"
| "fromhex (c # d # cs) =
     (if is_space c then fromhex (d # cs)
      else if is_hex c \<and> is_hex d
           then map_option (\<lambda>r. hex_lower c # hex_lower d # r) (fromhex cs)
           else None)"

definition ObjectId :: "string \<Rightarrow> exn + string" where
  "ObjectId s =
     (if length s = 24
      then (case fromhex s of None \<Rightarrow> Inl InvalidId | Some oid \<Rightarrow> Inr oid)
      else Inl InvalidId)"

definition todo_serializer :: "string \<Rightarrow> TodoBody option \<Rightarrow> exn + Todo" where
  "todo_serializer oid todo =
     (case todo of
        None \<Rightarrow> Inl TypeError
      | Some t \<Rightarrow> Inr \<lparr>todo_id = oid, todo_title = title t, todo_description = description t\<rparr>)"

definition insert_one :: "collection \<Rightarrow> string \<Rightarrow> TodoBody \<Rightarrow> exn + collection" where
  "insert_one coll new_id doc =
     (if coll new_id = None then Inr (coll(new_id \<mapsto> doc)) else Inl DuplicateKeyError)"

definition update_one :: "collection \<Rightarrow> string \<Rightarrow> TodoBody \<Rightarrow> collection \<times> nat" where
  "update_one coll oid doc = (if coll oid = None then (coll, 0) else (coll(oid \<mapsto> doc), 1))"

definition delete_one :: "collection \<Rightarrow> string \<Rightarrow> collection \<times> nat" where
  "delete_one coll oid = (if coll oid = None then (coll, 0) else (coll(oid := None), 1))"

text \<open>
  A result \<^verbatim>\<open>dict | bool\<close> is an option: \<open>None\<close> is the \<^verbatim>\<open>False\<close> the
  function returns on failure. \<open>new_id\<close> is the \<^verbatim>\<open>_id\<close> the driver gives the
  inserted document.
\<close>

definition db_create_todo ::
  "collection \<Rightarrow> string \<Rightarrow> TodoBody \<Rightarrow> collection \<times> (exn + Todo option)" where
  "db_create_todo coll new_id data =
     (case insert_one coll new_id data of
        Inl e \<Rightarrow> (coll, Inl e)
      | Inr coll' \<Rightarrow>
          (case coll' new_id of
             Some new_todo \<Rightarrow> (coll', map_sum id Some (todo_serializer new_id (Some new_todo)))
           | None \<Rightarrow> (coll', Inr None)))"

definition db_update_todo ::
  "collection \<Rightarrow> string \<Rightarrow> TodoBody \<Rightarrow> collection \<times> (exn + Todo option)" where
  "db_update_todo coll ident data =
     (case ObjectId ident of
        Inl e \<Rightarrow> (coll, Inl e)
      | Inr oid \<Rightarrow>
          (case coll oid of
             Some todo \<Rightarrow>
               (case update_one coll oid data of
                  (coll', matched_count) \<Rightarrow>
                    if matched_count > 0
                    then (coll', map_sum id Some (todo_serializer oid (coll' oid)))
                    else (coll', Inr None))
           | None \<Rightarrow> (coll, Inr None)))"

definition db_delete_todo :: "collection \<Rightarrow> string \<Rightarrow> collection \<times> (exn + bool)" where
  "db_delete_todo coll ident =
     (case ObjectId ident of
        Inl e \<Rightarrow> (coll, Inl e)
      | Inr oid \<Rightarrow>
          (case coll oid of
             Some todo \<Rightarrow>
               (case delete_one coll oid of
                  (coll', deleted_count) \<Rightarrow>
                    if deleted_count > 0 then (coll', Inr True) else (coll', Inr False))
           | None \<Rightarrow> (coll, Inr False)))"

section \<open>routers\<close>

text \<open>
  The \<^verbatim>\<open>Response\<close> object a handler is given: the status code it may set and
  the cookies set on it so far, oldest first. A handler returns the collection,
  the response object as it leaves it, and its result or the exception it
  raises. What the web framework sends to the client from that object, on a
  return or after an exception, is outside the repository and not modelled.
\<close>

record Cookie =
  cookie_key :: string
  cookie_value :: string
  cookie_httponly :: bool
  cookie_samesite :: string
  cookie_secure :: bool

record Response =
  status_code :: "nat option"
  set_cookies :: "Cookie list"

definition set_cookie :: "Response \<Rightarrow> string \<Rightarrow> string \<Rightarrow> bool \<Rightarrow> string \<Rightarrow> bool \<Rightarrow> Response" where
  "set_cookie response k v h ss sec =
     response\<lparr>set_cookies := set_cookies response @
       [\<lparr>cookie_key = k, cookie_value = v, cookie_httponly = h,
         cookie_samesite = ss, cookie_secure = sec\<rparr>]\<rparr>"

definition HTTP_201_CREATED :: nat where
  "HTTP_201_CREATED = 201"

subsection \<open>route\_todo.py\<close>

definition create_todo ::
  "AuthJwtCsrf \<Rightarrow> datetime \<Rightarrow> datetime \<Rightarrow> collection \<Rightarrow> string
     \<Rightarrow> Request \<Rightarrow> Response \<Rightarrow> TodoBody \<Rightarrow> CsrfProtect
     \<Rightarrow> collection \<times> Response \<times> (exn + Todo)" where
  "create_todo auth clock now coll new_id request response data csrf_protect =
     (case verify_csrf_update_jwt auth clock now request csrf_protect (headers request) of
        Inl e \<Rightarrow> (coll, response, Inl e)
      | Inr new_token \<Rightarrow>
          (case db_create_todo coll new_id data of
             (coll', Inl e) \<Rightarrow> (coll', response, Inl e)
           | (coll', Inr res) \<Rightarrow>
               (let response = set_cookie response jwt_token_cookie_key
                       (''Bearer '' @ new_token) httponly samesite secure
                in case res of
                     Some todo \<Rightarrow>
                       (coll', response\<lparr>status_code := Some HTTP_201_CREATED\<rparr>, Inr todo)
                   | None \<Rightarrow>
                       (coll', response, Inl (HTTPException 404 ''Create task failed.'')))))"

definition update_todo ::
  "AuthJwtCsrf \<Rightarrow> datetime \<Rightarrow> datetime \<Rightarrow> collection
     \<Rightarrow> Request \<Rightarrow> Response \<Rightarrow> string \<Rightarrow> TodoBody \<Rightarrow> CsrfProtect
     \<Rightarrow> collection \<times> Response \<times> (exn + Todo)" where
  "update_todo auth clock now coll request response ident data csrf_protect =
     (case verify_csrf_update_jwt auth clock now request csrf_protect (headers request) of
        Inl e \<Rightarrow> (coll, response, Inl e)
      | Inr new_token \<Rightarrow>
          (case db_update_todo coll ident data of
             (coll', Inl e) \<Rightarrow> (coll', response, Inl e)
           | (coll', Inr res) \<Rightarrow>
               (let response = set_cookie response jwt_token_cookie_key
                       (''Bearer '' @ new_token) httponly samesite secure
                in case res of
                     Some todo \<Rightarrow> (coll', response, Inr todo)
                   | None \<Rightarrow>
                       (coll', response, Inl (HTTPException 404 ''Update task failed.'')))))"

definition delete_todo ::
  "AuthJwtCsrf \<Rightarrow> datetime \<Rightarrow> datetime \<Rightarrow> collection
     \<Rightarrow> Request \<Rightarrow> Response \<Rightarrow> string \<Rightarrow> CsrfProtect
     \<Rightarrow> collection \<times> Response \<times> (exn + string)" where
  "delete_todo auth clock now coll request response ident csrf_protect =
     (case verify_csrf_update_jwt auth clock now request csrf_protect (headers request) of
        Inl e \<Rightarrow> (coll, response, Inl e)
      | Inr new_token \<Rightarrow>
          (case db_delete_todo coll ident of
             (coll', Inl e) \<Rightarrow> (coll', response, Inl e)
           | (coll', Inr res) \<Rightarrow>
               (let response = set_cookie response jwt_token_cookie_key
                       (''Bearer '' @ new_token) httponly samesite secure
                in if res then (coll', response, Inr ''Successfully deleted.'')
                   else (coll', response, Inl (HTTPException 404 ''Delete task failed.'')))))"

subsection \<open>route\_auth.py\<close>

definition get_user_refresh_jwt ::
  "AuthJwtCsrf \<Rightarrow> datetime \<Rightarrow> datetime \<Rightarrow> Request \<Rightarrow> Response \<Rightarrow> Response \<times> (exn + py_value)" where
  "get_user_refresh_jwt auth clock now request response =
     (case verify_update_jwt auth clock now request of
        Inl e \<Rightarrow> (response, Inl e)
      | Inr (new_token, subject) \<Rightarrow>
          (set_cookie response jwt_token_cookie_key
             (''Bearer '' @ new_token) httponly samesite secure,
           Inr subject))"

text \<open>The response object after the \<^verbatim>\<open>set_cookie\<close> call every handler makes.\<close>

abbreviation rotated :: "Response \<Rightarrow> string \<Rightarrow> Response" where
  "rotated response new_token \<equiv>
     set_cookie response jwt_token_cookie_key (''Bearer '' @ new_token) httponly samesite secure"

section \<open>Objects for the closed examples\<close>

text \<open>
  A \<^verbatim>\<open>CsrfProtect\<close> stand-in: the token is read from the header
  \<^verbatim>\<open>X-CSRF-Token\<close> and is valid when what follows its first four characters
  is their mirror image.
\<close>

definition example_csrf :: CsrfProtect where
  "example_csrf =
     \<lparr>get_csrf_from_headers =
        (\<lambda>hdrs. case hdrs ''X-CSRF-Token'' of
                  None \<Rightarrow> Inl InvalidHeaderError
                | Some t \<Rightarrow> Inr t),
      validate_csrf =
        (\<lambda>t. if t = [] then Inl MissingTokenError
             else if drop 4 t = rev (take 4 t) then Inr ()
             else Inl TokenValidationError)\<rparr>"

definition example_request :: "string option \<Rightarrow> string option \<Rightarrow> Request" where
  "example_request cookie csrf_header =
     \<lparr>cookies = (\<lambda>k. if k = ''access_token'' then cookie else None),
      headers = (\<lambda>k. if k = ''X-CSRF-Token'' then csrf_header else None)\<rparr>"

definition empty_response :: Response where
  "empty_response = \<lparr>status_code = None, set_cookies = []\<rparr>"

section \<open>Splitting the cookie value\<close>

lemma takeWhile_until:
  "sep \<notin> set pre \<Longrightarrow> takeWhile (\<lambda>c. c \<noteq> sep) (pre @ sep # rest) = pre"
  by (induction pre) auto

lemma dropWhile_until:
  "sep \<notin> set pre \<Longrightarrow> dropWhile (\<lambda>c. c \<noteq> sep) (pre @ sep # rest) = sep # rest"
  by (induction pre) auto

lemma str_partition_found:
  "sep \<notin> set pre \<Longrightarrow> str_partition (pre @ sep # rest) sep = (pre, [sep], rest)"
  by (simp add: str_partition_def takeWhile_until dropWhile_until)

lemma str_partition_absent: "sep \<notin> set s \<Longrightarrow> str_partition s sep = (s, [], [])"
  by (simp add: str_partition_def)

section \<open>The reference library meets the assumptions\<close>

lemma takeWhile_ones:
  "takeWhile (\<lambda>c. c = CHR ''1'') (replicate n (CHR ''1'') @ CHR ''0'' # r) = replicate n (CHR ''1'')"
  by (induction n) auto

lemma dropWhile_ones:
  "dropWhile (\<lambda>c. c = CHR ''1'') (replicate n (CHR ''1'') @ CHR ''0'' # r) = CHR ''0'' # r"
  by (induction n) auto

lemma parse_nat_ser: "parse_nat (ser_nat n @ r) = Some (n, r)"
  by (simp add: parse_nat_def ser_nat_def takeWhile_ones dropWhile_ones)

lemma parse_str_ser: "parse_str (ser_str s @ r) = Some (s, r)"
  by (simp add: parse_str_def ser_str_def parse_nat_ser)

lemma parse_int_ser: "parse_int (ser_int i @ r) = Some (i, r)"
  by (simp add: parse_int_def ser_int_def parse_nat_ser)

lemma parse_value_ser: "parse_value (ser_value v @ r) = Some (v, r)"
  by (cases v) (simp_all add: parse_value_def parse_str_ser parse_int_ser)

lemma parse_items_ser: "parse_items (length p) (ser_items p @ r) = Some (p, r)"
  by (induction p) (auto simp: parse_str_ser parse_value_ser)

lemma parse_payload_ser: "parse_payload (ser_payload p @ r) = Some (p, r)"
  by (simp add: parse_payload_def ser_payload_def parse_nat_ser parse_items_ser)

lemma validate_claims_valid:
  "time_valid claims clock \<Longrightarrow> validate_claims claims clock = Inr claims"
  by (auto simp: time_valid_def not_after_def unexpired_def validate_claims_def
      check_not_before_def check_exp_def split: option.splits py_value.splits)

lemma parse_ref_token:
  "parse_str (ref_jwt_encode mac p key alg) =
     Some (ser_str alg @ ser_payload (to_claims p),
           mac key (ser_str alg @ ser_payload (to_claims p)))"
  by (simp add: ref_jwt_encode_def Let_def parse_str_ser)

lemma ref_jwt_decode_signed:
  assumes "alg \<in> set algs"
  shows "ref_jwt_decode mac (ref_jwt_encode mac p key alg) key algs clock =
           validate_claims (to_claims p) clock"
proof -
  have pl: "parse_payload (ser_payload (to_claims p)) = Some (to_claims p, [])"
    using parse_payload_ser [of "to_claims p" "[]"] by simp
  show ?thesis
    using assms by (simp add: ref_jwt_decode_def parse_ref_token parse_str_ser pl)
qed

lemma ref_jwt_decode_encode:
  assumes "alg \<in> set algs" and "time_valid (to_claims p) clock"
  shows "ref_jwt_decode mac (ref_jwt_encode mac p key alg) key algs clock = Inr (to_claims p)"
  using assms by (simp add: ref_jwt_decode_signed validate_claims_valid)

lemma ref_auth_round_trips: "jwt_round_trips (ref_auth mac bcrypt key)"
  by (simp add: jwt_round_trips_def ref_auth_def ref_jwt_decode_encode)

lemma ref_auth_rejects_empty: "jwt_rejects_empty (ref_auth mac bcrypt key)"
  by (simp add: jwt_rejects_empty_def ref_auth_def ref_jwt_decode_def parse_str_def parse_nat_def)

lemma ref_auth_whole_seconds: "jwt_whole_seconds (ref_auth mac bcrypt key)"
proof -
  have "to_claims (to_claims (session_payload s now)) = to_claims (session_payload s now)" for s now
    by (simp add: session_payload_def to_claims_def)
  then show ?thesis
    by (simp add: jwt_whole_seconds_def ref_auth_def ref_jwt_encode_def)
qed

lemma example_auth_whole_seconds: "jwt_whole_seconds example_auth"
  by (simp add: example_auth_def ref_auth_whole_seconds)

lemma example_auth_round_trips: "jwt_round_trips example_auth"
  by (simp add: example_auth_def ref_auth_round_trips)

lemma example_auth_rejects_empty: "jwt_rejects_empty example_auth"
  by (simp add: example_auth_def ref_auth_rejects_empty)

section \<open>Session verification\<close>

lemma decode_jwt_not_404: "decode_jwt self clock v \<noteq> Inl (HTTPException 404 detail)"
  by (simp add: decode_jwt_def split: sum.splits jwt_error.splits option.splits)

text \<open>
  C5. \<^verbatim>\<open>verify_jwt\<close> raises the 404 "No JWT exist" exactly when the request has
  no \<^verbatim>\<open>access_token\<close> cookie; \<^verbatim>\<open>decode_jwt\<close> raises 401 only, so the two
  cannot be confused. With a cookie, it decodes the third component of
  \<^verbatim>\<open>partition(" ")\<close> of the value, which for a value \<open>pre @ '' '' @ rest\<close> with
  no space in \<open>pre\<close> is \<open>rest\<close>.
\<close>

theorem verify_jwt_session_missing:
  "((\<exists>detail. verify_jwt self clock request = Inl (HTTPException 404 detail))
      \<longleftrightarrow> cookies request jwt_token_cookie_key = None)
   \<and> (cookies request jwt_token_cookie_key = None \<longrightarrow>
        verify_jwt self clock request =
          Inl (HTTPException 404 ''No JWT exist: may not set yet or deleted.''))
   \<and> (\<forall>token. cookies request jwt_token_cookie_key = Some token \<longrightarrow>
        verify_jwt self clock request =
          decode_jwt self clock (snd (snd (str_partition token (CHR '' '')))))
   \<and> (\<forall>pre rest. CHR '' '' \<notin> set pre \<longrightarrow>
        snd (snd (str_partition (pre @ '' '' @ rest) (CHR '' ''))) = rest)"
  by (auto simp: verify_jwt_def str_partition_found decode_jwt_not_404
      split: option.splits prod.splits)

theorem verify_jwt_session_missing_witness:
  "verify_jwt example_auth 0 (example_request None None) =
     Inl (HTTPException 404 ''No JWT exist: may not set yet or deleted.'')
   \<and> verify_jwt example_auth 0 (example_request (Some ''Bearer abc'') None) =
       decode_jwt example_auth 0 ''abc''"
  using verify_jwt_session_missing [of example_auth 0 "example_request None None"]
    verify_jwt_session_missing [of example_auth 0 "example_request (Some ''Bearer abc'') None"]
  by (simp add: example_request_def jwt_token_cookie_key_def str_partition_def)

lemma verify_jwt_bearer:
  "cookies request jwt_token_cookie_key = Some (''Bearer '' @ t) \<Longrightarrow>
     verify_jwt self clock request = decode_jwt self clock t"
  using str_partition_found [of "CHR '' ''" "''Bearer''" t]
  by (simp add: verify_jwt_def)

lemma decode_jwt_empty:
  "jwt_rejects_empty self \<Longrightarrow>
     decode_jwt self clock [] = Inl (HTTPException 401 ''Invalid JWT token'')"
proof -
  assume "jwt_rejects_empty self"
  then obtain e where "jwt_decode self [] (secret_key self) [''HS256''] clock = Inl e"
    and "e \<noteq> ExpiredSignatureError"
    unfolding jwt_rejects_empty_def by blast
  then show ?thesis
    by (cases e) (simp_all add: decode_jwt_def)
qed

section \<open>Issued tokens\<close>

lemma issued_claims:
  "to_claims [(''sub'', subject), (''iat'', Datetime now), (''exp'', Datetime (now + timedelta 0 5))]
     = [(''sub'', subject), (''iat'', Integer (now div 1000000)),
        (''exp'', Integer (now div 1000000 + 300))]"
proof -
  have "(now + 300 * 1000000) div 1000000 = now div 1000000 + 300"
    by simp
  then have "(now + 300000000) div 1000000 = now div 1000000 + 300"
    by simp
  then show ?thesis
    by (simp add: to_claims_def timedelta_def split: py_value.split)
qed

lemma issued_time_valid:
  assumes "now \<le> clock" and "clock < (now div 1000000 + 300) * 1000000"
  shows "time_valid [(''sub'', subject), (''iat'', Integer (now div 1000000)),
                     (''exp'', Integer (now div 1000000 + 300))] clock"
proof -
  have "0 \<le> now mod 1000000"
    by simp
  with div_mult_mod_eq [of now 1000000] have "now div 1000000 * 1000000 \<le> now"
    by linarith
  with assms show ?thesis
    by (simp add: time_valid_def not_after_def unexpired_def)
qed

lemma encode_jwt_session: "encode_jwt self now (Str s) =
    jwt_encode self (session_payload s now) (secret_key self) ''HS256''"
  by (simp add: encode_jwt_def session_payload_def)

lemma session_claims:
  "to_claims (session_payload s now)
     = [(''sub'', Str s), (''iat'', Integer (now div 1000000)),
        (''exp'', Integer (now div 1000000 + 300))]"
  by (simp add: session_payload_def issued_claims)

lemma jwt_decode_issued:
  assumes "jwt_round_trips self"
    and "now \<le> clock" and "clock < (now div 1000000 + 300) * 1000000"
  shows "jwt_decode self (encode_jwt self now (Str s)) (secret_key self) [''HS256''] clock
           = Inr [(''sub'', Str s), (''iat'', Integer (now div 1000000)),
                  (''exp'', Integer (now div 1000000 + 300))]"
proof -
  have "time_valid (to_claims (session_payload s now)) clock"
    using assms(2,3) by (simp only: session_claims issued_time_valid)
  with assms(1) have "jwt_decode self
      (jwt_encode self (session_payload s now) (secret_key self) ''HS256'')
      (secret_key self) [''HS256''] clock = Inr (to_claims (session_payload s now))"
    unfolding jwt_round_trips_def by blast
  then show ?thesis
    by (simp add: encode_jwt_session session_claims)
qed

lemma decode_jwt_issued:
  assumes "jwt_round_trips self"
    and "now \<le> clock" and "clock < (now div 1000000 + 300) * 1000000"
  shows "decode_jwt self clock (encode_jwt self now (Str s)) = Inr (Str s)"
  using jwt_decode_issued [OF assms] by (simp add: decode_jwt_def)

lemma issued_not_expired_yet: "now < (now div 1000000 + 300) * (1000000::int)"
proof -
  have "now mod 1000000 < 1000000"
    by simp
  moreover have "(now div 1000000 + 300) * 1000000 = now div 1000000 * 1000000 + 300000000"
    by (simp add: distrib_right)
  ultimately show ?thesis
    using div_mult_mod_eq [of now 1000000] by linarith
qed

text \<open>
  C2. With a library that round-trips the tokens \<^verbatim>\<open>encode_jwt\<close> has it sign,
  the token issued for a subject decodes to that subject at the instant of
  issuance, and at every later instant before the expiry the token carries
  (300 seconds after the second of issuance).
\<close>

theorem decode_encode_round_trip:
  assumes "jwt_round_trips self"
  shows "decode_jwt self now (encode_jwt self now (Str s)) = Inr (Str s)
         \<and> (\<forall>clock. now \<le> clock \<and> clock < (now div 1000000 + 300) * 1000000 \<longrightarrow>
               decode_jwt self clock (encode_jwt self now (Str s)) = Inr (Str s))"
  using assms by (simp add: decode_jwt_issued issued_not_expired_yet)

theorem decode_encode_round_trip_witness:
  "decode_jwt example_auth 1700000000123456
     (encode_jwt example_auth 1700000000123456 (Str ''alice@example.com''))
     = Inr (Str ''alice@example.com'')"
  using decode_encode_round_trip [OF example_auth_round_trips] by blast

text \<open>
  C6. The payload \<^verbatim>\<open>encode_jwt\<close> signs has \<^verbatim>\<open>exp\<close> five minutes after the
  clock reading of that call. The token \<^verbatim>\<open>verify_update_jwt\<close> returns is
  \<^verbatim>\<open>encode_jwt\<close> of the subject at the clock reading of the rotation, so nothing
  of the old token but its subject enters it. With a library that round-trips,
  the expiry the new token carries is the second of rotation plus 300.
\<close>

theorem token_expiry_from_now:
  "encode_jwt self now subject =
     jwt_encode self [(''sub'', subject), (''iat'', Datetime now),
                      (''exp'', Datetime (now + 5 * 60 * 1000000))] (secret_key self) ''HS256''
   \<and> (\<forall>new_token subject'.
         verify_update_jwt self clock now request = Inr (new_token, subject') \<longrightarrow>
         new_token = encode_jwt self now subject')
   \<and> (jwt_round_trips self \<and> now \<le> clock' \<and> clock' < (now div 1000000 + 300) * 1000000 \<longrightarrow>
         jwt_decode self (encode_jwt self now (Str s)) (secret_key self) [''HS256''] clock'
           = Inr [(''sub'', Str s), (''iat'', Integer (now div 1000000)),
                  (''exp'', Integer (now div 1000000 + 300))])"
proof (intro conjI allI impI)
  show "encode_jwt self now subject =
     jwt_encode self [(''sub'', subject), (''iat'', Datetime now),
                      (''exp'', Datetime (now + 5 * 60 * 1000000))] (secret_key self) ''HS256''"
    by (simp add: encode_jwt_def timedelta_def)
next
  fix new_token subject'
  assume "verify_update_jwt self clock now request = Inr (new_token, subject')"
  then show "new_token = encode_jwt self now subject'"
    by (auto simp: verify_update_jwt_def split: sum.splits)
next
  assume "jwt_round_trips self \<and> now \<le> clock' \<and> clock' < (now div 1000000 + 300) * 1000000"
  then show "jwt_decode self (encode_jwt self now (Str s)) (secret_key self) [''HS256''] clock'
           = Inr [(''sub'', Str s), (''iat'', Integer (now div 1000000)),
                  (''exp'', Integer (now div 1000000 + 300))]"
    by (simp add: jwt_decode_issued)
qed

theorem token_expiry_from_now_witness:
  "verify_update_jwt example_auth 900000000 900000001
     (example_request (Some (''Bearer '' @ encode_jwt example_auth 660000000 (Str ''bob''))) None)
     = Inr (encode_jwt example_auth 900000001 (Str ''bob''), Str ''bob'')
   \<and> jwt_decode example_auth (encode_jwt example_auth 900000001 (Str ''bob''))
        (secret_key example_auth) [''HS256''] 900000002
       = Inr [(''sub'', Str ''bob''), (''iat'', Integer 900), (''exp'', Integer 1200)]"
proof -
  let ?req = "example_request (Some (''Bearer '' @ encode_jwt example_auth 660000000 (Str ''bob''))) None"
  have "verify_jwt example_auth 900000000 ?req = Inr (Str ''bob'')"
    by (simp add: verify_jwt_bearer example_request_def jwt_token_cookie_key_def
        decode_jwt_issued example_auth_round_trips)
  then have "verify_update_jwt example_auth 900000000 900000001 ?req
      = Inr (encode_jwt example_auth 900000001 (Str ''bob''), Str ''bob'')"
    by (simp add: verify_update_jwt_def)
  moreover have "jwt_decode example_auth (encode_jwt example_auth 900000001 (Str ''bob''))
        (secret_key example_auth) [''HS256''] 900000002
       = Inr [(''sub'', Str ''bob''), (''iat'', Integer 900), (''exp'', Integer 1200)]"
  proof -
    have "jwt_round_trips example_auth \<and> (900000001::int) \<le> 900000002
        \<and> (900000002::int) < (900000001 div 1000000 + 300) * 1000000"
      by (simp add: example_auth_round_trips)
    with token_expiry_from_now [of example_auth 900000001 "Str ''bob''" 0 ?req 900000002 "''bob''"]
    have "jwt_decode example_auth (encode_jwt example_auth 900000001 (Str ''bob''))
        (secret_key example_auth) [''HS256''] 900000002
       = Inr [(''sub'', Str ''bob''), (''iat'', Integer (900000001 div 1000000)),
              (''exp'', Integer (900000001 div 1000000 + 300))]"
      by blast
    then show ?thesis by simp
  qed
  ultimately show ?thesis by simp
qed

section \<open>The cookie prefix\<close>

text \<open>
  C10. A cookie value with a space is cut at its first space and the rest is
  decoded, whatever stands before the space. A cookie value without a space
  sends the empty string to \<^verbatim>\<open>decode_jwt\<close>; with a library that rejects the
  empty token, the request fails with the 401 "Invalid JWT token", not with the
  404 of a missing cookie.
\<close>

theorem verify_jwt_partition:
  "(\<forall>pre rest. cookies request jwt_token_cookie_key = Some (pre @ '' '' @ rest)
        \<and> CHR '' '' \<notin> set pre \<longrightarrow>
        verify_jwt self clock request = decode_jwt self clock rest)
   \<and> (\<forall>token. cookies request jwt_token_cookie_key = Some token \<and> CHR '' '' \<notin> set token \<longrightarrow>
        verify_jwt self clock request = decode_jwt self clock []
        \<and> (jwt_rejects_empty self \<longrightarrow>
             verify_jwt self clock request = Inl (HTTPException 401 ''Invalid JWT token'')))"
  by (auto simp: verify_jwt_def str_partition_found str_partition_absent decode_jwt_empty)

theorem verify_jwt_partition_witness:
  "verify_jwt example_auth 0 (example_request (Some ''Basic x y'') None) =
     decode_jwt example_auth 0 ''x y''
   \<and> verify_jwt example_auth 0 (example_request (Some ''Bearer'') None) =
       Inl (HTTPException 401 ''Invalid JWT token'')"
proof -
  let ?r1 = "example_request (Some ''Basic x y'') None"
  let ?r2 = "example_request (Some ''Bearer'') None"
  have c1: "cookies ?r1 jwt_token_cookie_key = Some (''Basic'' @ '' '' @ ''x y'')
      \<and> CHR '' '' \<notin> set ''Basic''"
    by (simp add: example_request_def jwt_token_cookie_key_def)
  have c2: "cookies ?r2 jwt_token_cookie_key = Some ''Bearer'' \<and> CHR '' '' \<notin> set ''Bearer''"
    by (simp add: example_request_def jwt_token_cookie_key_def)
  from verify_jwt_partition [of ?r1 example_auth 0] c1
  have "verify_jwt example_auth 0 ?r1 = decode_jwt example_auth 0 ''x y''" by blast
  moreover from verify_jwt_partition [of ?r2 example_auth 0] c2 example_auth_rejects_empty
  have "verify_jwt example_auth 0 ?r2 = Inl (HTTPException 401 ''Invalid JWT token'')" by blast
  ultimately show ?thesis by simp
qed

section \<open>CSRF before the session\<close>

text \<open>
  C4. When reading the CSRF header fails, or validating its token fails,
  \<^verbatim>\<open>verify_csrf_update_jwt\<close> raises that error, and its outcome is the same for
  every request, clock, key and token library: no cookie is read, no token is
  decoded and no replacement is issued.
\<close>

theorem csrf_checked_first:
  assumes "get_csrf_from_headers csrf_protect hdrs = Inl e
           \<or> (\<exists>t. get_csrf_from_headers csrf_protect hdrs = Inr t
                  \<and> validate_csrf csrf_protect t = Inl e)"
  shows "verify_csrf_update_jwt self clock now request csrf_protect hdrs = Inl (CsrfProtectError e)
         \<and> verify_csrf_update_jwt self' clock' now' request' csrf_protect hdrs =
             verify_csrf_update_jwt self clock now request csrf_protect hdrs"
  using assms by (auto simp: verify_csrf_update_jwt_def)

theorem csrf_checked_first_witness:
  "verify_update_jwt example_auth 2000 3000
     (example_request (Some (''Bearer '' @ encode_jwt example_auth 1000 (Str ''alice''))) None)
     = Inr (encode_jwt example_auth 3000 (Str ''alice''), Str ''alice'')
   \<and> verify_csrf_update_jwt example_auth 2000 3000
       (example_request (Some (''Bearer '' @ encode_jwt example_auth 1000 (Str ''alice''))) None)
       example_csrf (\<lambda>k. None)
     = Inl (CsrfProtectError InvalidHeaderError)
   \<and> verify_csrf_update_jwt example_auth 2000 3000
       (example_request (Some (''Bearer '' @ encode_jwt example_auth 1000 (Str ''alice''))) None)
       example_csrf (\<lambda>k. if k = ''X-CSRF-Token'' then Some ''forged'' else None)
     = Inl (CsrfProtectError TokenValidationError)"
proof -
  let ?req = "example_request (Some (''Bearer '' @ encode_jwt example_auth 1000 (Str ''alice''))) None"
  let ?forged = "\<lambda>k. if k = ''X-CSRF-Token'' then Some ''forged'' else None"
  have "verify_jwt example_auth 2000 ?req = Inr (Str ''alice'')"
    by (simp add: verify_jwt_bearer example_request_def jwt_token_cookie_key_def
        decode_jwt_issued example_auth_round_trips)
  then have valid: "verify_update_jwt example_auth 2000 3000 ?req
      = Inr (encode_jwt example_auth 3000 (Str ''alice''), Str ''alice'')"
    by (simp add: verify_update_jwt_def)
  have missing: "get_csrf_from_headers example_csrf (\<lambda>k. None) = Inl InvalidHeaderError"
    by (simp add: example_csrf_def)
  have forged: "get_csrf_from_headers example_csrf ?forged = Inr ''forged''
      \<and> validate_csrf example_csrf ''forged'' = Inl TokenValidationError"
    by (simp add: example_csrf_def)
  from csrf_checked_first [of example_csrf "\<lambda>k. None" InvalidHeaderError example_auth 2000 3000 ?req]
    missing
  have a: "verify_csrf_update_jwt example_auth 2000 3000 ?req example_csrf (\<lambda>k. None)
      = Inl (CsrfProtectError InvalidHeaderError)" by blast
  from csrf_checked_first [of example_csrf ?forged TokenValidationError example_auth 2000 3000 ?req]
    forged
  have b: "verify_csrf_update_jwt example_auth 2000 3000 ?req example_csrf ?forged
      = Inl (CsrfProtectError TokenValidationError)" by blast
  from valid a b show ?thesis by simp
qed

section \<open>GET /api/user\<close>

text \<open>
  C9. Without an \<^verbatim>\<open>access_token\<close> cookie, \<^verbatim>\<open>get_user_refresh_jwt\<close> raises the
  404 of \<^verbatim>\<open>verify_jwt\<close> and leaves the response object as it was given:
  \<^verbatim>\<open>set_cookie\<close> is not reached.
\<close>

theorem get_user_without_cookie:
  "cookies request jwt_token_cookie_key = None \<Longrightarrow>
     get_user_refresh_jwt auth clock now request response =
       (response, Inl (HTTPException 404 ''No JWT exist: may not set yet or deleted.''))"
  by (simp add: get_user_refresh_jwt_def verify_update_jwt_def verify_jwt_def)

theorem get_user_without_cookie_witness:
  "get_user_refresh_jwt example_auth 5 9 (example_request None None) empty_response =
     (empty_response, Inl (HTTPException 404 ''No JWT exist: may not set yet or deleted.''))
   \<and> set_cookies (fst (get_user_refresh_jwt example_auth 5 9 (example_request None None)
         empty_response)) = []"
  using get_user_without_cookie [of "example_request None None" example_auth 5 9 empty_response]
  by (simp add: example_request_def jwt_token_cookie_key_def empty_response_def)

section \<open>Rotation\<close>

lemma ref_encode_jwt:
  "encode_jwt (ref_auth mac bcrypt key) now subject =
     (let body = ser_str ''HS256'' @
                 ser_payload [(''sub'', subject), (''iat'', Integer (now div 1000000)),
                              (''exp'', Integer (now div 1000000 + 300))]
      in ser_str body @ mac key body)"
  by (simp add: encode_jwt_def ref_auth_def ref_jwt_encode_def issued_claims)

text \<open>
  C7, as stated, fails: nothing but the subject and the clock enters a token,
  and the library keeps whole seconds only. A token issued at 7.000100 s and
  rotated at 7.000900 s comes back as the same string.
\<close>

theorem rotation_same_token_counterexample:
  "verify_update_jwt example_auth 7000500 7000900
     (example_request (Some (''Bearer '' @ encode_jwt example_auth 7000100 (Str ''alice''))) None)
     = Inr (encode_jwt example_auth 7000100 (Str ''alice''), Str ''alice'')"
proof -
  let ?req = "example_request (Some (''Bearer '' @ encode_jwt example_auth 7000100 (Str ''alice''))) None"
  have "verify_jwt example_auth 7000500 ?req = Inr (Str ''alice'')"
    by (simp add: verify_jwt_bearer example_request_def jwt_token_cookie_key_def
        decode_jwt_issued example_auth_round_trips)
  moreover have "encode_jwt example_auth 7000900 (Str ''alice'')
      = encode_jwt example_auth 7000100 (Str ''alice'')"
    by (simp add: example_auth_def ref_encode_jwt)
  ultimately show ?thesis
    by (simp add: verify_update_jwt_def)
qed

text \<open>
  C7, amended. For a cookie \<open>''Bearer '' @ t1\<close> whose token decodes to a string
  subject, \<^verbatim>\<open>verify_update_jwt\<close> returns that subject and the token \<open>t2\<close> that
  \<^verbatim>\<open>encode_jwt\<close> issues for it at the clock reading of the rotation. With a
  library that round-trips, \<open>t2\<close> decodes to the same subject, at that instant
  and until the expiry it carries, and \<open>t2\<close> differs from \<open>t1\<close> unless \<open>t1\<close>
  already decodes to the claims of the second of rotation: it differs from every
  token \<^verbatim>\<open>encode_jwt\<close> issued for the subject in another clock second that has
  not expired. With a library that keeps whole seconds, \<open>t2\<close> is \<open>t1\<close> when
  \<open>t1\<close> was issued for the subject in the clock second of the rotation.
\<close>

theorem rotation_keeps_subject:
  assumes "jwt_round_trips self"
    and "cookies request jwt_token_cookie_key = Some (''Bearer '' @ t1)"
    and "decode_jwt self clock t1 = Inr (Str s)"
  shows "verify_update_jwt self clock now request = Inr (encode_jwt self now (Str s), Str s)
         \<and> decode_jwt self now (encode_jwt self now (Str s)) = Inr (Str s)
         \<and> (\<forall>clock'. now \<le> clock' \<and> clock' < (now div 1000000 + 300) * 1000000 \<longrightarrow>
               decode_jwt self clock' (encode_jwt self now (Str s)) = Inr (Str s))
         \<and> (jwt_decode self t1 (secret_key self) [''HS256''] now
               \<noteq> Inr [(''sub'', Str s), (''iat'', Integer (now div 1000000)),
                       (''exp'', Integer (now div 1000000 + 300))] \<longrightarrow>
             encode_jwt self now (Str s) \<noteq> t1)
         \<and> (\<forall>now1. t1 = encode_jwt self now1 (Str s)
                 \<and> now1 div 1000000 \<noteq> now div 1000000
                 \<and> now1 \<le> now \<and> now < (now1 div 1000000 + 300) * 1000000 \<longrightarrow>
               encode_jwt self now (Str s) \<noteq> t1)
         \<and> (\<forall>now1. jwt_whole_seconds self \<and> t1 = encode_jwt self now1 (Str s)
                 \<and> now1 div 1000000 = now div 1000000 \<longrightarrow>
               encode_jwt self now (Str s) = t1)"
proof (intro conjI allI impI)
  have "verify_jwt self clock request = Inr (Str s)"
    using assms(2,3) by (simp add: verify_jwt_bearer)
  then show "verify_update_jwt self clock now request = Inr (encode_jwt self now (Str s), Str s)"
    by (simp add: verify_update_jwt_def)
next
  show "decode_jwt self now (encode_jwt self now (Str s)) = Inr (Str s)"
    using assms(1) by (simp add: decode_jwt_issued issued_not_expired_yet)
next
  fix clock'
  assume "now \<le> clock' \<and> clock' < (now div 1000000 + 300) * 1000000"
  then show "decode_jwt self clock' (encode_jwt self now (Str s)) = Inr (Str s)"
    using assms(1) by (simp add: decode_jwt_issued)
next
  assume other: "jwt_decode self t1 (secret_key self) [''HS256''] now
      \<noteq> Inr [(''sub'', Str s), (''iat'', Integer (now div 1000000)),
              (''exp'', Integer (now div 1000000 + 300))]"
  have "jwt_decode self (encode_jwt self now (Str s)) (secret_key self) [''HS256''] now
      = Inr [(''sub'', Str s), (''iat'', Integer (now div 1000000)),
             (''exp'', Integer (now div 1000000 + 300))]"
    using assms(1) by (simp add: jwt_decode_issued issued_not_expired_yet)
  with other show "encode_jwt self now (Str s) \<noteq> t1"
    by auto
next
  fix now1
  assume earlier: "t1 = encode_jwt self now1 (Str s)
      \<and> now1 div 1000000 \<noteq> now div 1000000
      \<and> now1 \<le> now \<and> now < (now1 div 1000000 + 300) * 1000000"
  then have old: "jwt_decode self t1 (secret_key self) [''HS256''] now
      = Inr [(''sub'', Str s), (''iat'', Integer (now1 div 1000000)),
             (''exp'', Integer (now1 div 1000000 + 300))]"
    using assms(1) by (simp add: jwt_decode_issued)
  have new: "jwt_decode self (encode_jwt self now (Str s)) (secret_key self) [''HS256''] now
      = Inr [(''sub'', Str s), (''iat'', Integer (now div 1000000)),
             (''exp'', Integer (now div 1000000 + 300))]"
    using assms(1) by (simp add: jwt_decode_issued issued_not_expired_yet)
  show "encode_jwt self now (Str s) \<noteq> t1"
  proof
    assume "encode_jwt self now (Str s) = t1"
    with old new earlier show False
      by simp
  qed
next
  fix now1
  assume same: "jwt_whole_seconds self \<and> t1 = encode_jwt self now1 (Str s)
      \<and> now1 div 1000000 = now div 1000000"
  then have "encode_jwt self n (Str s)
      = jwt_encode self (to_claims (session_payload s n)) (secret_key self) ''HS256''" for n
    unfolding jwt_whole_seconds_def encode_jwt_session by blast
  with same show "encode_jwt self now (Str s) = t1"
    by (simp add: session_claims)
qed

theorem rotation_keeps_subject_witness:
  "verify_update_jwt example_auth 250000000 250000001
     (example_request (Some (''Bearer '' @ encode_jwt example_auth 1000 (Str ''alice''))) None)
     = Inr (encode_jwt example_auth 250000001 (Str ''alice''), Str ''alice'')
   \<and> decode_jwt example_auth 250000001 (encode_jwt example_auth 250000001 (Str ''alice''))
       = Inr (Str ''alice'')
   \<and> encode_jwt example_auth 250000001 (Str ''alice'')
       \<noteq> encode_jwt example_auth 1000 (Str ''alice'')
   \<and> encode_jwt example_auth 7000900 (Str ''alice'')
       = encode_jwt example_auth 7000100 (Str ''alice'')"
proof -
  let ?t1 = "encode_jwt example_auth 1000 (Str ''alice'')"
  let ?req = "example_request (Some (''Bearer '' @ ?t1)) None"
  have cookie: "cookies ?req jwt_token_cookie_key = Some (''Bearer '' @ ?t1)"
    by (simp add: example_request_def jwt_token_cookie_key_def)
  have valid: "decode_jwt example_auth 250000000 ?t1 = Inr (Str ''alice'')"
    by (simp add: decode_jwt_issued example_auth_round_trips)
  have earlier: "?t1 = encode_jwt example_auth 1000 (Str ''alice'')
      \<and> (1000::int) div 1000000 \<noteq> 250000001 div 1000000
      \<and> (1000::int) \<le> 250000001 \<and> (250000001::int) < (1000 div 1000000 + 300) * 1000000"
    by simp
  from rotation_keeps_subject [OF example_auth_round_trips cookie valid, of 250000001] earlier
  have a: "verify_update_jwt example_auth 250000000 250000001 ?req
      = Inr (encode_jwt example_auth 250000001 (Str ''alice''), Str ''alice'')
    \<and> decode_jwt example_auth 250000001 (encode_jwt example_auth 250000001 (Str ''alice''))
      = Inr (Str ''alice'')
    \<and> encode_jwt example_auth 250000001 (Str ''alice'') \<noteq> ?t1"
    by blast
  let ?u1 = "encode_jwt example_auth 7000100 (Str ''alice'')"
  let ?req' = "example_request (Some (''Bearer '' @ ?u1)) None"
  have cookie': "cookies ?req' jwt_token_cookie_key = Some (''Bearer '' @ ?u1)"
    by (simp add: example_request_def jwt_token_cookie_key_def)
  have valid': "decode_jwt example_auth 7000500 ?u1 = Inr (Str ''alice'')"
    by (simp add: decode_jwt_issued example_auth_round_trips)
  have same: "jwt_whole_seconds example_auth \<and> ?u1 = encode_jwt example_auth 7000100 (Str ''alice'')
      \<and> (7000100::int) div 1000000 = 7000900 div 1000000"
    by (simp add: example_auth_whole_seconds)
  from rotation_keeps_subject [OF example_auth_round_trips cookie' valid', of 7000900] same
  have b: "encode_jwt example_auth 7000900 (Str ''alice'') = ?u1"
    by blast
  from a b show ?thesis
    by simp
qed

section \<open>Password verification\<close>

text \<open>
  C8, as stated, fails: \<^verbatim>\<open>verify_password\<close> has no handler of its own, and the
  password context raises on a blob that no scheme of it identifies.
\<close>

theorem verify_password_raises_counterexample:
  "verify_password example_auth ''secret'' ''not-a-hash'' = Inl UnknownHashError"
  by (simp add: verify_password_def example_auth_def ref_auth_def ref_pwd_ctx_verify_def
      bcrypt_idents_def)

text \<open>
  C8, amended. \<^verbatim>\<open>verify_password\<close> returns the boolean the password context
  returns and raises what the context raises; with the bcrypt-only reference
  context, every blob without a bcrypt prefix raises \<^verbatim>\<open>UnknownHashError\<close>.
\<close>

theorem verify_password_delegates:
  "(verify_password self plain_pw hashed_pw = Inr b
      \<longleftrightarrow> pwd_ctx_verify self plain_pw hashed_pw = Inr b)
   \<and> (verify_password self plain_pw hashed_pw = Inl e
      \<longleftrightarrow> pwd_ctx_verify self plain_pw hashed_pw = Inl e)
   \<and> (\<not> list_ex (\<lambda>ident. take (length ident) hashed_pw = ident) bcrypt_idents \<longrightarrow>
        verify_password (ref_auth mac bcrypt key) plain_pw hashed_pw = Inl UnknownHashError)"
  by (simp add: verify_password_def ref_auth_def ref_pwd_ctx_verify_def)

theorem verify_password_delegates_witness:
  "verify_password example_auth ''pw'' [] = Inl UnknownHashError
   \<and> pwd_ctx_verify example_auth ''pw'' [] = Inl UnknownHashError"
proof -
  have "\<not> list_ex (\<lambda>ident. take (length ident) [] = ident) bcrypt_idents"
    by (simp add: bcrypt_idents_def)
  with verify_password_delegates [of example_auth "''pw''" "[]" True UnknownHashError
      toy_mac toy_bcrypt "''k3y''"]
  show ?thesis
    unfolding example_auth_def by blast
qed

section \<open>Decoding errors\<close>

text \<open>
  \<^verbatim>\<open>decode_jwt\<close> turns \<^verbatim>\<open>ExpiredSignatureError\<close> into the 401 "JWT token has
  expired" and every other error of the library into the 401 "Invalid JWT
  token". With the reference library, a token it signed is expired from the
  second of its \<^verbatim>\<open>exp\<close> on, and a token whose tag is not the one of its body is
  invalid.
\<close>

theorem decode_jwt_errors:
  "(jwt_decode self token (secret_key self) [''HS256''] clock = Inl ExpiredSignatureError \<longrightarrow>
      decode_jwt self clock token = Inl (HTTPException 401 ''JWT token has expired''))
   \<and> (\<forall>e. jwt_decode self token (secret_key self) [''HS256''] clock = Inl e
          \<and> e \<noteq> ExpiredSignatureError \<longrightarrow>
          decode_jwt self clock token = Inl (HTTPException 401 ''Invalid JWT token''))
   \<and> (now \<le> clock \<and> (now div 1000000 + 300) * 1000000 \<le> clock \<longrightarrow>
        decode_jwt (ref_auth mac bcrypt key) clock
          (encode_jwt (ref_auth mac bcrypt key) now subject)
          = Inl (HTTPException 401 ''JWT token has expired''))
   \<and> (\<forall>body tag. tag \<noteq> mac key body \<longrightarrow>
        decode_jwt (ref_auth mac bcrypt key) clock (ser_str body @ tag)
          = Inl (HTTPException 401 ''Invalid JWT token''))"
proof (intro conjI allI impI)
  assume "jwt_decode self token (secret_key self) [''HS256''] clock = Inl ExpiredSignatureError"
  then show "decode_jwt self clock token = Inl (HTTPException 401 ''JWT token has expired'')"
    by (simp add: decode_jwt_def)
next
  fix e
  assume "jwt_decode self token (secret_key self) [''HS256''] clock = Inl e
      \<and> e \<noteq> ExpiredSignatureError"
  then show "decode_jwt self clock token = Inl (HTTPException 401 ''Invalid JWT token'')"
    by (cases e) (simp_all add: decode_jwt_def)
next
  assume late: "now \<le> clock \<and> (now div 1000000 + 300) * 1000000 \<le> clock"
  have "0 \<le> now mod 1000000"
    by simp
  with div_mult_mod_eq [of now 1000000] have "now div 1000000 * 1000000 \<le> now"
    by linarith
  with late have "validate_claims [(''sub'', subject), (''iat'', Integer (now div 1000000)),
      (''exp'', Integer (now div 1000000 + 300))] clock = Inl ExpiredSignatureError"
    by (simp add: validate_claims_def check_not_before_def check_exp_def)
  then show "decode_jwt (ref_auth mac bcrypt key) clock
      (encode_jwt (ref_auth mac bcrypt key) now subject)
      = Inl (HTTPException 401 ''JWT token has expired'')"
    by (simp add: decode_jwt_def encode_jwt_def ref_auth_def ref_jwt_decode_signed issued_claims)
next
  fix body tag
  assume "tag \<noteq> mac key body"
  then have "\<exists>e. ref_jwt_decode mac (ser_str body @ tag) key [''HS256''] clock = Inl e
      \<and> e \<noteq> ExpiredSignatureError"
    by (simp add: ref_jwt_decode_def parse_str_ser split: option.splits)
  then obtain e where "ref_jwt_decode mac (ser_str body @ tag) key [''HS256''] clock = Inl e"
    and "e \<noteq> ExpiredSignatureError"
    by blast
  then show "decode_jwt (ref_auth mac bcrypt key) clock (ser_str body @ tag)
      = Inl (HTTPException 401 ''Invalid JWT token'')"
    by (cases e) (simp_all add: decode_jwt_def ref_auth_def)
qed

theorem decode_jwt_errors_witness:
  "decode_jwt example_auth 400000000 (encode_jwt example_auth 7000000 (Str ''alice''))
     = Inl (HTTPException 401 ''JWT token has expired'')
   \<and> decode_jwt example_auth 400000000 []
     = Inl (HTTPException 401 ''Invalid JWT token'')"
proof -
  have "(7000000::int) \<le> 400000000 \<and> (7000000 div 1000000 + 300) * 1000000 \<le> (400000000::int)"
    by simp
  with decode_jwt_errors [of example_auth "[]" 400000000 7000000 toy_mac toy_bcrypt "''k3y''"
      "Str ''alice''"]
  have "decode_jwt example_auth 400000000 (encode_jwt example_auth 7000000 (Str ''alice''))
     = Inl (HTTPException 401 ''JWT token has expired'')"
    unfolding example_auth_def by blast
  then show ?thesis
    by (simp add: decode_jwt_empty example_auth_rejects_empty)
qed

text \<open>
  C3. A token signed with the key whose payload has no \<^verbatim>\<open>sub\<close> passes
  \<^verbatim>\<open>jwt.decode\<close>, and the \<^verbatim>\<open>KeyError\<close> of \<^verbatim>\<open>payload["sub"]\<close> leaves
  \<^verbatim>\<open>decode_jwt\<close> uncaught: neither of the two 401 errors is raised.
\<close>

theorem decode_jwt_missing_sub:
  "decode_jwt example_auth 7000000
     (jwt_encode example_auth [(''iat'', Datetime 7000000), (''exp'', Datetime 307000000)]
        (secret_key example_auth) ''HS256'')
     = Inl (KeyError ''sub'')"
proof -
  have claims: "to_claims [(''iat'', Datetime 7000000), (''exp'', Datetime 307000000)]
      = [(''iat'', Integer 7), (''exp'', Integer 307)]"
    by (simp add: to_claims_def)
  have "time_valid [(''iat'', Integer 7), (''exp'', Integer 307)] 7000000"
    by (simp add: time_valid_def not_after_def unexpired_def)
  then have "ref_jwt_decode toy_mac
      (ref_jwt_encode toy_mac [(''iat'', Datetime 7000000), (''exp'', Datetime 307000000)]
         ''k3y'' ''HS256'') ''k3y'' [''HS256''] 7000000
      = Inr [(''iat'', Integer 7), (''exp'', Integer 307)]"
    by (simp add: ref_jwt_decode_encode claims)
  then show ?thesis
    by (simp add: decode_jwt_def example_auth_def ref_auth_def)
qed

section \<open>The mutating todo handlers\<close>

lemma example_session:
  "verify_csrf_update_jwt example_auth 2000 3000
     (example_request (Some (''Bearer '' @ encode_jwt example_auth 1000 (Str ''alice'')))
        (Some ''abcddcba''))
     example_csrf
     (headers (example_request (Some (''Bearer '' @ encode_jwt example_auth 1000 (Str ''alice'')))
        (Some ''abcddcba'')))
     = Inr (encode_jwt example_auth 3000 (Str ''alice''))"
proof -
  let ?req = "example_request (Some (''Bearer '' @ encode_jwt example_auth 1000 (Str ''alice'')))
        (Some ''abcddcba'')"
  have "verify_jwt example_auth 2000 ?req = Inr (Str ''alice'')"
    by (simp add: verify_jwt_bearer example_request_def jwt_token_cookie_key_def
        decode_jwt_issued example_auth_round_trips)
  then have "verify_update_jwt example_auth 2000 3000 ?req
      = Inr (encode_jwt example_auth 3000 (Str ''alice''), Str ''alice'')"
    by (simp add: verify_update_jwt_def)
  moreover have "get_csrf_from_headers example_csrf (headers ?req) = Inr ''abcddcba''"
    by (simp add: example_csrf_def example_request_def)
  moreover have "validate_csrf example_csrf ''abcddcba'' = Inr ()"
    by (simp add: example_csrf_def)
  ultimately show ?thesis
    by (simp add: verify_csrf_update_jwt_def)
qed

lemma ObjectId_example: "ObjectId ''0123456789abcdef01234567'' = Inr ''0123456789abcdef01234567''"
  by (simp add: ObjectId_def hex_lower_def is_hex_def is_space_def)

text \<open>
  C1, as stated, fails: \<^verbatim>\<open>update_todo\<close> calls \<^verbatim>\<open>response.set_cookie\<close> before it
  looks at the result of the record operation. For an id that no document has,
  the handler raises the 404 "Update task failed." and the response object
  carries the rotated cookie.
\<close>

theorem update_todo_failure_sets_cookie_counterexample:
  "update_todo example_auth 2000 3000 Map.empty
     (example_request (Some (''Bearer '' @ encode_jwt example_auth 1000 (Str ''alice'')))
        (Some ''abcddcba''))
     empty_response ''0123456789abcdef01234567'' \<lparr>title = ''t'', description = ''d''\<rparr>
     example_csrf
   = (Map.empty,
      \<lparr>status_code = None,
       set_cookies = [\<lparr>cookie_key = ''access_token'',
                       cookie_value = ''Bearer '' @ encode_jwt example_auth 3000 (Str ''alice''),
                       cookie_httponly = True, cookie_samesite = ''none'',
                       cookie_secure = True\<rparr>]\<rparr>,
      Inl (HTTPException 404 ''Update task failed.''))"
  using example_session
  by (simp add: update_todo_def db_update_todo_def ObjectId_example
      set_cookie_def empty_response_def jwt_token_cookie_key_def httponly_def samesite_def
      secure_def)

text \<open>
  C1, amended. In \<^verbatim>\<open>create_todo\<close>, \<^verbatim>\<open>update_todo\<close> and \<^verbatim>\<open>delete_todo\<close>:
  when the CSRF or session check raises, or the record operation itself raises,
  the handler raises that exception and the response object is as it was given;
  when the record operation returns, \<^verbatim>\<open>set_cookie\<close> has put the rotated
  \<open>''Bearer ''\<close> cookie on the response object, both when the operation succeeded
  and when it returned its failure value and the handler raises 404. An id that
  is not an \<^verbatim>\<open>ObjectId\<close> makes update and delete raise; a well-formed id that no
  document has makes them return the failure value.
\<close>

theorem mutation_cookie_on_response:
  "(\<forall>e. verify_csrf_update_jwt auth clock now request cp (headers request) = Inl e \<longrightarrow>
       create_todo auth clock now coll new_id request response data cp = (coll, response, Inl e)
     \<and> update_todo auth clock now coll request response ident data cp = (coll, response, Inl e)
     \<and> delete_todo auth clock now coll request response ident cp = (coll, response, Inl e))
   \<and> (\<forall>new_token.
        verify_csrf_update_jwt auth clock now request cp (headers request) = Inr new_token \<longrightarrow>
        (\<forall>coll' e. db_create_todo coll new_id data = (coll', Inl e) \<longrightarrow>
           create_todo auth clock now coll new_id request response data cp
             = (coll', response, Inl e))
      \<and> (\<forall>coll' todo. db_create_todo coll new_id data = (coll', Inr (Some todo)) \<longrightarrow>
           create_todo auth clock now coll new_id request response data cp
             = (coll', (rotated response new_token)\<lparr>status_code := Some 201\<rparr>, Inr todo))
      \<and> (\<forall>coll'. db_create_todo coll new_id data = (coll', Inr None) \<longrightarrow>
           create_todo auth clock now coll new_id request response data cp
             = (coll', rotated response new_token,
                Inl (HTTPException 404 ''Create task failed.'')))
      \<and> (\<forall>coll' e. db_update_todo coll ident data = (coll', Inl e) \<longrightarrow>
           update_todo auth clock now coll request response ident data cp
             = (coll', response, Inl e))
      \<and> (\<forall>coll' todo. db_update_todo coll ident data = (coll', Inr (Some todo)) \<longrightarrow>
           update_todo auth clock now coll request response ident data cp
             = (coll', rotated response new_token, Inr todo))
      \<and> (\<forall>coll'. db_update_todo coll ident data = (coll', Inr None) \<longrightarrow>
           update_todo auth clock now coll request response ident data cp
             = (coll', rotated response new_token,
                Inl (HTTPException 404 ''Update task failed.'')))
      \<and> (\<forall>coll' e. db_delete_todo coll ident = (coll', Inl e) \<longrightarrow>
           delete_todo auth clock now coll request response ident cp
             = (coll', response, Inl e))
      \<and> (\<forall>coll'. db_delete_todo coll ident = (coll', Inr True) \<longrightarrow>
           delete_todo auth clock now coll request response ident cp
             = (coll', rotated response new_token, Inr ''Successfully deleted.''))
      \<and> (\<forall>coll'. db_delete_todo coll ident = (coll', Inr False) \<longrightarrow>
           delete_todo auth clock now coll request response ident cp
             = (coll', rotated response new_token,
                Inl (HTTPException 404 ''Delete task failed.''))))
   \<and> (\<forall>e. ObjectId ident = Inl e \<longrightarrow>
        db_update_todo coll ident data = (coll, Inl e)
      \<and> db_delete_todo coll ident = (coll, Inl e))
   \<and> (\<forall>oid. ObjectId ident = Inr oid \<and> coll oid = None \<longrightarrow>
        db_update_todo coll ident data = (coll, Inr None)
      \<and> db_delete_todo coll ident = (coll, Inr False))"
proof (intro conjI allI impI)
  fix e
  assume "verify_csrf_update_jwt auth clock now request cp (headers request) = Inl e"
  then show "create_todo auth clock now coll new_id request response data cp
        = (coll, response, Inl e)"
    and "update_todo auth clock now coll request response ident data cp = (coll, response, Inl e)"
    and "delete_todo auth clock now coll request response ident cp = (coll, response, Inl e)"
    by (simp_all add: create_todo_def update_todo_def delete_todo_def)
next
  fix new_token
  assume ok: "verify_csrf_update_jwt auth clock now request cp (headers request) = Inr new_token"
  {
    fix coll' e
    assume "db_create_todo coll new_id data = (coll', Inl e)"
    with ok show "create_todo auth clock now coll new_id request response data cp
        = (coll', response, Inl e)"
      by (simp add: create_todo_def)
  next
    fix coll' todo
    assume "db_create_todo coll new_id data = (coll', Inr (Some todo))"
    with ok show "create_todo auth clock now coll new_id request response data cp
        = (coll', (rotated response new_token)\<lparr>status_code := Some 201\<rparr>, Inr todo)"
      by (simp add: create_todo_def HTTP_201_CREATED_def)
  next
    fix coll'
    assume "db_create_todo coll new_id data = (coll', Inr None)"
    with ok show "create_todo auth clock now coll new_id request response data cp
        = (coll', rotated response new_token, Inl (HTTPException 404 ''Create task failed.''))"
      by (simp add: create_todo_def)
  next
    fix coll' e
    assume "db_update_todo coll ident data = (coll', Inl e)"
    with ok show "update_todo auth clock now coll request response ident data cp
        = (coll', response, Inl e)"
      by (simp add: update_todo_def)
  next
    fix coll' todo
    assume "db_update_todo coll ident data = (coll', Inr (Some todo))"
    with ok show "update_todo auth clock now coll request response ident data cp
        = (coll', rotated response new_token, Inr todo)"
      by (simp add: update_todo_def)
  next
    fix coll'
    assume "db_update_todo coll ident data = (coll', Inr None)"
    with ok show "update_todo auth clock now coll request response ident data cp
        = (coll', rotated response new_token, Inl (HTTPException 404 ''Update task failed.''))"
      by (simp add: update_todo_def)
  next
    fix coll' e
    assume "db_delete_todo coll ident = (coll', Inl e)"
    with ok show "delete_todo auth clock now coll request response ident cp
        = (coll', response, Inl e)"
      by (simp add: delete_todo_def)
  next
    fix coll'
    assume "db_delete_todo coll ident = (coll', Inr True)"
    with ok show "delete_todo auth clock now coll request response ident cp
        = (coll', rotated response new_token, Inr ''Successfully deleted.'')"
      by (simp add: delete_todo_def)
  next
    fix coll'
    assume "db_delete_todo coll ident = (coll', Inr False)"
    with ok show "delete_todo auth clock now coll request response ident cp
        = (coll', rotated response new_token, Inl (HTTPException 404 ''Delete task failed.''))"
      by (simp add: delete_todo_def)
  }
next
  fix e
  assume "ObjectId ident = Inl e"
  then show "db_update_todo coll ident data = (coll, Inl e)"
    and "db_delete_todo coll ident = (coll, Inl e)"
    by (simp_all add: db_update_todo_def db_delete_todo_def)
next
  fix oid
  assume "ObjectId ident = Inr oid \<and> coll oid = None"
  then show "db_update_todo coll ident data = (coll, Inr None)"
    and "db_delete_todo coll ident = (coll, Inr False)"
    by (simp_all add: db_update_todo_def db_delete_todo_def)
qed

theorem mutation_cookie_on_response_witness:
  "create_todo example_auth 2000 3000 Map.empty ''0123456789abcdef01234567''
     (example_request (Some (''Bearer '' @ encode_jwt example_auth 1000 (Str ''alice'')))
        (Some ''abcddcba''))
     empty_response \<lparr>title = ''t'', description = ''d''\<rparr> example_csrf
   = ([''0123456789abcdef01234567'' \<mapsto> \<lparr>title = ''t'', description = ''d''\<rparr>],
      (rotated empty_response (encode_jwt example_auth 3000 (Str ''alice'')))
        \<lparr>status_code := Some 201\<rparr>,
      Inr \<lparr>todo_id = ''0123456789abcdef01234567'', todo_title = ''t'',
           todo_description = ''d''\<rparr>)
   \<and> delete_todo example_auth 2000 3000 Map.empty
       (example_request (Some (''Bearer '' @ encode_jwt example_auth 1000 (Str ''alice''))) None)
       empty_response ''0123456789abcdef01234567'' example_csrf
     = (Map.empty, empty_response, Inl (CsrfProtectError InvalidHeaderError))
   \<and> delete_todo example_auth 2000 3000 Map.empty
       (example_request (Some (''Bearer '' @ encode_jwt example_auth 1000 (Str ''alice'')))
          (Some ''abcddcba''))
       empty_response ''not-an-id'' example_csrf
     = (Map.empty, empty_response, Inl InvalidId)"
proof -
  let ?cookie = "Some (''Bearer '' @ encode_jwt example_auth 1000 (Str ''alice''))"
  let ?req = "example_request ?cookie (Some ''abcddcba'')"
  let ?anon = "example_request ?cookie None"
  let ?oid = "''0123456789abcdef01234567''"
  let ?body = "\<lparr>title = ''t'', description = ''d''\<rparr>"
  have created: "db_create_todo Map.empty ?oid ?body
      = ([?oid \<mapsto> ?body],
         Inr (Some \<lparr>todo_id = ?oid, todo_title = ''t'', todo_description = ''d''\<rparr>))"
    by (simp add: db_create_todo_def insert_one_def todo_serializer_def)
  have no_header: "verify_csrf_update_jwt example_auth 2000 3000 ?anon example_csrf (headers ?anon)
      = Inl (CsrfProtectError InvalidHeaderError)"
    by (simp add: verify_csrf_update_jwt_def example_csrf_def example_request_def)
  have bad_id: "db_delete_todo Map.empty ''not-an-id'' = (Map.empty, Inl InvalidId)"
    by (simp add: db_delete_todo_def ObjectId_def)
  from mutation_cookie_on_response [of example_auth 2000 3000 ?req example_csrf Map.empty
      ?oid empty_response ?body ?oid] example_session created
  have a: "create_todo example_auth 2000 3000 Map.empty ?oid ?req empty_response ?body example_csrf
      = ([?oid \<mapsto> ?body],
         (rotated empty_response (encode_jwt example_auth 3000 (Str ''alice'')))
           \<lparr>status_code := Some 201\<rparr>,
         Inr \<lparr>todo_id = ?oid, todo_title = ''t'', todo_description = ''d''\<rparr>)"
    by blast
  from mutation_cookie_on_response [of example_auth 2000 3000 ?anon example_csrf Map.empty
      ?oid empty_response ?body ?oid] no_header
  have b: "delete_todo example_auth 2000 3000 Map.empty ?anon empty_response ?oid example_csrf
      = (Map.empty, empty_response, Inl (CsrfProtectError InvalidHeaderError))"
    by blast
  from mutation_cookie_on_response [of example_auth 2000 3000 ?req example_csrf Map.empty
      ?oid empty_response ?body "''not-an-id''"] example_session bad_id
  have c: "delete_todo example_auth 2000 3000 Map.empty ?req empty_response ''not-an-id''
      example_csrf = (Map.empty, empty_response, Inl InvalidId)"
    by blast
  from a b c show ?thesis
    by simp
qed

end
